theory Spec2Isabelle
  imports Main "HOL-Library.Word"
begin

unbundle bit_operations_syntax

section \<open>Media kinds and magic-byte classification\<close>

text \<open>
  A Python 2 byte string is a list of 8-bit words.  The module constants
  \<open>MEDIA_IMAGE\<close>, \<open>MEDIA_VIDEO\<close> and \<open>MEDIA_VIDEO_NOAUDIO\<close> are the integers
  0, 1 and 2; \<open>get_media_type\<close> returns one of them or Python's \<open>None\<close>, so a
  media type is an \<open>int option\<close>.
\<close>

type_synonym byte = "8 word"
type_synonym bytes = "byte list"

definition MEDIA_IMAGE :: int where
  "MEDIA_IMAGE = 0"

definition MEDIA_VIDEO :: int where
  "MEDIA_VIDEO = 1"

definition MEDIA_VIDEO_NOAUDIO :: int where
  "MEDIA_VIDEO_NOAUDIO = 2"

text \<open>
  The slice \<open>data[0:2]\<close> never raises: on a string shorter than two bytes it is
  the whole string, which is what \<open>take 2\<close> computes.
\<close>

definition is_video :: "bytes \<Rightarrow> bool" where
  "is_video data = (if take 2 data = [0x00, 0x00] then True else False)"

definition is_image :: "bytes \<Rightarrow> bool" where
  "is_image data = (if take 2 data = [0xFF, 0xD8] then True else False)"

definition is_zip :: "bytes \<Rightarrow> bool" where
  "is_zip data = (if take 2 data = [0x50, 0x4B] then True else False)"

definition get_file_extension :: "int option \<Rightarrow> string" where
  "get_file_extension media_type =
     (if media_type \<in> {Some MEDIA_VIDEO, Some MEDIA_VIDEO_NOAUDIO} then ''mp4''
      else if media_type = Some MEDIA_IMAGE then ''jpg''
      else '''')"

definition get_media_type :: "bytes \<Rightarrow> int option" where
  "get_media_type data =
     (if is_video data then Some MEDIA_VIDEO
      else if is_image data then Some MEDIA_IMAGE
      else if is_zip data then Some MEDIA_VIDEO
      else None)"

section \<open>Python values\<close>

text \<open>
  The values the client handles besides byte strings are what \<open>r.json()\<close> returns and
  what it puts into request dictionaries: \<open>None\<close>, booleans, numbers, text, lists and
  dictionaries.  Python's \<open>None\<close> is \<open>JNull\<close>.  A dictionary is an association list
  read with \<open>map_of\<close>.  A number is an integer here; in the operations below a float
  behaves as an integer does.
\<close>

datatype json =
    JNull
  | JBool bool
  | JNum int
  | JStr string
  | JArr "json list"
  | JObj "(string \<times> json) list"

text \<open>
  The exceptions of the model.  \<open>Exception m\<close> is the \<open>Exception\<close> that \<open>login\<close> raises
  itself, with its argument; \<open>External\<close> stands for whatever a helper of
  \<open>snapy.utils\<close> or the HTTP layer raises; the others are raised by the Python
  operations on values.
\<close>

datatype error =
    Exception json
  | KeyError string
  | TypeError
  | AttributeError
  | ValueError
  | UnicodeEncodeError
  | External string

text \<open>
  The helpers of \<open>snapy.utils\<close> and the network report a failure as a message; the
  client sees it as an exception that is none of its own.
\<close>

definition ext :: "string + 'a \<Rightarrow> error + 'a" where
  "ext r = (case r of Inl msg \<Rightarrow> Inl (External msg) | Inr x \<Rightarrow> Inr x)"

fun py_substring :: "string \<Rightarrow> string \<Rightarrow> bool" where
  "py_substring p [] = (p = [])"
| "py_substring p (c # cs) = (take (length p) (c # cs) = p \<or> py_substring p cs)"

text \<open>
  \<open>key in v\<close> for a text key: membership among the keys of a dictionary, among the
  elements of a list, substring test on text, and a \<open>TypeError\<close> on a value that is not
  iterable.
\<close>

fun py_in :: "string \<Rightarrow> json \<Rightarrow> error + bool" where
  "py_in k (JObj kvs) = Inr (map_of kvs k \<noteq> None)"
| "py_in k (JArr xs) = Inr (List.member xs (JStr k))"
| "py_in k (JStr s) = Inr (py_substring k s)"
| "py_in k JNull = Inl TypeError"
| "py_in k (JBool b) = Inl TypeError"
| "py_in k (JNum n) = Inl TypeError"

text \<open>
  \<open>v[key]\<close> for a text key: a dictionary gives the value or a \<open>KeyError\<close>; a list
  and a text want integer indices, the other values have no items: \<open>TypeError\<close>.
\<close>

fun py_getitem :: "json \<Rightarrow> string \<Rightarrow> error + json" where
  "py_getitem (JObj kvs) k = (case map_of kvs k of None \<Rightarrow> Inl (KeyError k) | Some v \<Rightarrow> Inr v)"
| "py_getitem (JArr xs) k = Inl TypeError"
| "py_getitem (JStr s) k = Inl TypeError"
| "py_getitem JNull k = Inl TypeError"
| "py_getitem (JBool b) k = Inl TypeError"
| "py_getitem (JNum n) k = Inl TypeError"

text \<open>\<open>v.get(key, default)\<close>: only a dictionary has the method.\<close>

fun py_get :: "json \<Rightarrow> string \<Rightarrow> json \<Rightarrow> error + json" where
  "py_get (JObj kvs) k d = Inr (case map_of kvs k of None \<Rightarrow> d | Some v \<Rightarrow> v)"
| "py_get (JArr xs) k d = Inl AttributeError"
| "py_get (JStr s) k d = Inl AttributeError"
| "py_get JNull k d = Inl AttributeError"
| "py_get (JBool b) k d = Inl AttributeError"
| "py_get (JNum n) k d = Inl AttributeError"

definition opt_str :: "string option \<Rightarrow> json" where
  "opt_str x = (case x of None \<Rightarrow> JNull | Some s \<Rightarrow> JStr s)"

section \<open>SHA-256 and HMAC\<close>

type_synonym w32 = "32 word"

text \<open>A Python 2 \<open>str\<close> read as bytes.\<close>

definition bytes_of_str :: "string \<Rightarrow> bytes" where
  "bytes_of_str s = map of_char s"

text \<open>
  \<open>hashlib.sha256\<close>: the functions and constants of SHA-256, the padding of the message
  to whole 64-byte blocks, the message schedule, the 64 rounds of a block and the digest
  of the eight state words, most significant byte first.
\<close>

definition Ch :: "w32 \<Rightarrow> w32 \<Rightarrow> w32 \<Rightarrow> w32" where
  "Ch x y z = (x AND y) XOR (NOT x AND z)"

definition Maj :: "w32 \<Rightarrow> w32 \<Rightarrow> w32 \<Rightarrow> w32" where
  "Maj x y z = (x AND y) XOR (x AND z) XOR (y AND z)"

definition bsig0 :: "w32 \<Rightarrow> w32" where
  "bsig0 x = word_rotr 2 x XOR word_rotr 13 x XOR word_rotr 22 x"

definition bsig1 :: "w32 \<Rightarrow> w32" where
  "bsig1 x = word_rotr 6 x XOR word_rotr 11 x XOR word_rotr 25 x"

definition ssig0 :: "w32 \<Rightarrow> w32" where
  "ssig0 x = word_rotr 7 x XOR word_rotr 18 x XOR drop_bit 3 x"

definition ssig1 :: "w32 \<Rightarrow> w32" where
  "ssig1 x = word_rotr 17 x XOR word_rotr 19 x XOR drop_bit 10 x"

definition K256 :: "w32 list" where
  "K256 = [
    0x428A2F98, 0x71374491, 0xB5C0FBCF, 0xE9B5DBA5, 0x3956C25B, 0x59F111F1, 0x923F82A4, 0xAB1C5ED5,
    0xD807AA98, 0x12835B01, 0x243185BE, 0x550C7DC3, 0x72BE5D74, 0x80DEB1FE, 0x9BDC06A7, 0xC19BF174,
    0xE49B69C1, 0xEFBE4786, 0x0FC19DC6, 0x240CA1CC, 0x2DE92C6F, 0x4A7484AA, 0x5CB0A9DC, 0x76F988DA,
    0x983E5152, 0xA831C66D, 0xB00327C8, 0xBF597FC7, 0xC6E00BF3, 0xD5A79147, 0x06CA6351, 0x14292967,
    0x27B70A85, 0x2E1B2138, 0x4D2C6DFC, 0x53380D13, 0x650A7354, 0x766A0ABB, 0x81C2C92E, 0x92722C85,
    0xA2BFE8A1, 0xA81A664B, 0xC24B8B70, 0xC76C51A3, 0xD192E819, 0xD6990624, 0xF40E3585, 0x106AA070,
    0x19A4C116, 0x1E376C08, 0x2748774C, 0x34B0BCB5, 0x391C0CB3, 0x4ED8AA4A, 0x5B9CCA4F, 0x682E6FF3,
    0x748F82EE, 0x78A5636F, 0x84C87814, 0x8CC70208, 0x90BEFFFA, 0xA4506CEB, 0xBEF9A3F7, 0xC67178F2]"

type_synonym sha_state = "w32 \<times> w32 \<times> w32 \<times> w32 \<times> w32 \<times> w32 \<times> w32 \<times> w32"

definition H256 :: sha_state where
  "H256 = (0x6A09E667, 0xBB67AE85, 0x3C6EF372, 0xA54FF53A,
           0x510E527F, 0x9B05688C, 0x1F83D9AB, 0x5BE0CD19)"

definition be32 :: "bytes \<Rightarrow> w32" where
  "be32 bs = foldl (\<lambda>acc b. push_bit 8 acc OR ucast b) 0 (take 4 bs)"

definition be32_bytes :: "w32 \<Rightarrow> bytes" where
  "be32_bytes w = [ucast (drop_bit 24 w), ucast (drop_bit 16 w), ucast (drop_bit 8 w), ucast w]"

definition be64_bytes :: "64 word \<Rightarrow> bytes" where
  "be64_bytes w = map (\<lambda>i. ucast (drop_bit (8 * (7 - i)) w)) [0..<8]"

definition sha_pad :: "bytes \<Rightarrow> bytes" where
  "sha_pad m = m @ [0x80] @ replicate ((55 + 64 - length m mod 64) mod 64) 0 @
               be64_bytes (8 * of_nat (length m))"

function chunks :: "nat \<Rightarrow> 'a list \<Rightarrow> 'a list list" where
  "chunks n xs = (if n = 0 \<or> xs = [] then [] else take n xs # chunks n (drop n xs))"
  by pat_completeness auto
termination
  by (relation "measure (\<lambda>(n, xs). length xs)") auto

declare chunks.simps [simp del]

fun schedule :: "nat \<Rightarrow> w32 list \<Rightarrow> w32 list" where
  "schedule 0 ws = ws"
| "schedule (Suc n) ws =
     schedule n (ws @ [ssig1 (ws ! (length ws - 2)) + ws ! (length ws - 7) +
                       ssig0 (ws ! (length ws - 15)) + ws ! (length ws - 16)])"

definition sha_round :: "sha_state \<Rightarrow> w32 \<times> w32 \<Rightarrow> sha_state" where
  "sha_round s kw =
     (case s of (a, b, c, d, e, f, g, h) \<Rightarrow>
        (let t1 = h + bsig1 e + Ch e f g + fst kw + snd kw;
             t2 = bsig0 a + Maj a b c
         in (t1 + t2, a, b, c, d + t1, e, f, g)))"

definition sha_add :: "sha_state \<Rightarrow> sha_state \<Rightarrow> sha_state" where
  "sha_add s t =
     (case s of (a, b, c, d, e, f, g, h) \<Rightarrow>
      case t of (a', b', c', d', e', f', g', h') \<Rightarrow>
        (a + a', b + b', c + c', d + d', e + e', f + f', g + g', h + h'))"

definition sha_block :: "sha_state \<Rightarrow> bytes \<Rightarrow> sha_state" where
  "sha_block s blk =
     sha_add s (foldl sha_round s (zip K256 (schedule 48 (map be32 (chunks 4 blk)))))"

definition sha_digest :: "sha_state \<Rightarrow> bytes" where
  "sha_digest s =
     (case s of (a, b, c, d, e, f, g, h) \<Rightarrow>
        concat (map be32_bytes [a, b, c, d, e, f, g, h]))"

definition sha256 :: "bytes \<Rightarrow> bytes" where
  "sha256 m = sha_digest (foldl sha_block H256 (chunks 64 (sha_pad m)))"

text \<open>\<open>hexdigest()\<close>: two lower-case hexadecimal digits for each byte.\<close>

definition hexdigit :: "nat \<Rightarrow> char" where
  "hexdigit n = ''0123456789abcdef'' ! n"

definition hex :: "bytes \<Rightarrow> string" where
  "hex bs = concat (map (\<lambda>b. [hexdigit (unat (drop_bit 4 b)), hexdigit (unat (b AND 0x0F))]) bs)"

text \<open>
  \<open>hmac.new(key, msg, sha256)\<close>: a key longer than the block size of 64 bytes is hashed
  first, the key is filled up with zero bytes to 64, and the digest is
  \<open>H(key XOR 5C.. + H(key XOR 36.. + msg))\<close>.
\<close>

definition hmac_sha256 :: "bytes \<Rightarrow> bytes \<Rightarrow> bytes" where
  "hmac_sha256 key msg =
     (let k1 = (if length key > 64 then sha256 key else key);
          k2 = k1 @ replicate (64 - length k1) 0
      in sha256 (map (\<lambda>b. b XOR 0x5C) k2 @ sha256 (map (\<lambda>b. b XOR 0x36) k2 @ msg)))"

declare schedule.simps [simp del]

section \<open>The client object and its environment\<close>

text \<open>
  A call of \<open>request\<close> of \<open>snapy.utils\<close>, with its eight arguments in order
  (\<open>endpoint\<close>, \<open>auth_token\<close>, \<open>data\<close>, \<open>params\<close>, \<open>files\<close>, \<open>raise_for_status\<close>,
  \<open>req_type\<close>, \<open>moreheaders\<close>).  An
  absent dictionary argument (\<open>None\<close>) is \<open>None\<close>; the dictionaries keep the order in
  which the source writes their items.
\<close>

record request_call =
  rq_endpoint :: string
  rq_auth_token :: json
  rq_data :: "(string \<times> json) list option"
  rq_params :: "(string \<times> json) list option"
  rq_files :: "(string \<times> bytes) list option"
  rq_raise_for_status :: bool
  rq_req_type :: string
  rq_moreheaders :: "(string \<times> json) list"

text \<open>
  What the client reads of a response: its raw content and the value of \<open>r.json()\<close>,
  \<open>None\<close> when the body is not JSON and \<open>r.json()\<close> raises a \<open>ValueError\<close>.
\<close>

record response =
  r_content :: bytes
  r_json :: "json option"

text \<open>
  The fields of a \<open>Snapchat\<close> object, as \<open>__init__\<close> declares them.  Instants
  (\<open>datetime\<close> values) are integers, \<open>datetime.fromtimestamp(0)\<close> being 0.  Three more
  fields record the interaction with the outside: the number of readings of the clock,
  the number of calls of \<open>get_auth_token\<close> (the identity provider), and the requests
  issued so far, oldest first.
\<close>

record snapchat =
  username :: "string option"
  auth_token :: json
  gmail :: "string option"
  gpasswd :: "string option"
  gauth :: "string option"
  expiry :: int
  clock_reads :: nat
  idp_calls :: nat
  sent :: "request_call list"

definition init :: snapchat where
  "init = \<lparr>username = None, auth_token = JNull, gmail = None, gpasswd = None,
            gauth = None, expiry = 0, clock_reads = 0, idp_calls = 0, sent = []\<rparr>"

text \<open>
  The helpers imported from \<open>snapy.utils\<close>, the clock and the network are parameters.
  The answers of the clock, of the identity provider and of the server depend on how
  many readings, calls and requests came before.
\<close>

record env =
  e_clock :: "nat \<Rightarrow> int"
  e_get_auth_token :: "nat \<Rightarrow> string option \<Rightarrow> string option \<Rightarrow> string + (string \<times> int)"
  e_request :: "nat \<Rightarrow> request_call \<Rightarrow> string + response"
  e_timestamp :: string
  e_STATIC_TOKEN :: string
  e_make_request_token :: "string \<Rightarrow> string \<Rightarrow> string"
  e_get_attestation :: "string \<Rightarrow> string \<Rightarrow> string \<Rightarrow> string + json"
  e_get_client_auth_token :: "string \<Rightarrow> string \<Rightarrow> string \<Rightarrow> string + json"
  e_str :: "json \<Rightarrow> string"

text \<open>
  A method of the object takes the object and returns its result, a value or an
  exception, with the object as the method leaves it.
\<close>

type_synonym 'a action = "snapchat \<Rightarrow> (error + 'a) \<times> snapchat"

definition bind :: "'a action \<Rightarrow> ('a \<Rightarrow> 'b action) \<Rightarrow> 'b action" where
  "bind m f self = (case m self of (Inl e, self') \<Rightarrow> (Inl e, self') | (Inr x, self') \<Rightarrow> f x self')"

definition lift :: "error + 'a \<Rightarrow> 'a action" where
  "lift r self = (r, self)"

definition assign :: "(snapchat \<Rightarrow> snapchat) \<Rightarrow> unit action" where
  "assign f self = (Inr (), f self)"

definition get_self :: "snapchat action" where
  "get_self self = (Inr self, self)"

text \<open>\<open>datetime.now()\<close> and \<open>get_auth_token(gmail, gpasswd)\<close>, counted.\<close>

definition datetime_now :: "env \<Rightarrow> int action" where
  "datetime_now env self =
     (Inr (e_clock env (clock_reads self)), self\<lparr>clock_reads := Suc (clock_reads self)\<rparr>)"

definition get_auth_token :: "env \<Rightarrow> string option \<Rightarrow> string option \<Rightarrow> (string \<times> int) action" where
  "get_auth_token env g p self =
     (ext (e_get_auth_token env (idp_calls self) g p), self\<lparr>idp_calls := Suc (idp_calls self)\<rparr>)"

text \<open>
  \<open>_request\<close> passes the object's \<open>auth_token\<close> and its own arguments to \<open>request\<close>.
\<close>

definition mk_request ::
  "snapchat \<Rightarrow> string \<Rightarrow> (string \<times> json) list option \<Rightarrow> (string \<times> json) list option \<Rightarrow>
   (string \<times> bytes) list option \<Rightarrow> bool \<Rightarrow> string \<Rightarrow> (string \<times> json) list \<Rightarrow> request_call" where
  "mk_request self ep d ps fs rfs rt mh =
     \<lparr>rq_endpoint = ep, rq_auth_token = auth_token self, rq_data = d, rq_params = ps,
      rq_files = fs, rq_raise_for_status = rfs, rq_req_type = rt, rq_moreheaders = mh\<rparr>"

definition request :: "env \<Rightarrow> request_call \<Rightarrow> response action" where
  "request env rc self =
     (ext (e_request env (length (sent self)) rc), self\<lparr>sent := sent self @ [rc]\<rparr>)"

definition response_json :: "response \<Rightarrow> error + json" where
  "response_json r = (case r_json r of None \<Rightarrow> Inl ValueError | Some v \<Rightarrow> Inr v)"

definition unset_auth :: "snapchat \<Rightarrow> snapchat" where
  "unset_auth self = self\<lparr>username := None, auth_token := JNull\<rparr>"

text \<open>
  \<open>_get_gauth\<close>: read the clock; at or past the stored expiry, call the identity
  provider and store its token and expiry; return the stored token.  When the provider
  raises, the exception leaves \<open>_get_gauth\<close> before either field is assigned.
\<close>

definition get_gauth :: "env \<Rightarrow> string option action" where
  "get_gauth env =
     bind (datetime_now env) (\<lambda>now.
     bind get_self (\<lambda>self.
     bind (if now \<ge> expiry self then
             bind (get_auth_token env (gmail self) (gpasswd self)) (\<lambda>gauth_token.
               assign (\<lambda>self. self\<lparr>gauth := Some (fst gauth_token), expiry := snd gauth_token\<rparr>))
           else lift (Inr ())) (\<lambda>_.
     bind get_self (\<lambda>self. lift (Inr (gauth self))))))"

definition get_device_token :: "env \<Rightarrow> json action" where
  "get_device_token env =
     bind (get_gauth env) (\<lambda>g.
     bind get_self (\<lambda>self.
     bind (request env (mk_request self ''/loq/device_id'' None (Some [(''gauth'', opt_str g)])
                          None True ''post'' [])) (\<lambda>r.
     lift (response_json r))))"

section \<open>Login\<close>

text \<open>
  \<open>str(v)\<close>: a text stays as it is when all of it is ASCII and raises a
  \<open>UnicodeEncodeError\<close> otherwise; the text of any other value is left to the
  environment.
\<close>

definition py_str :: "env \<Rightarrow> json \<Rightarrow> error + string" where
  "py_str env v =
     (case v of
        JStr s \<Rightarrow> if list_all (\<lambda>c. (of_char c :: nat) < 128) s then Inr s
                  else Inl UnicodeEncodeError
      | _ \<Rightarrow> Inr (e_str env v))"

text \<open>
  The signature of the login request:
  \<open>hmac.new(key, username + "|" + password + "|" + now + "|" + req_token,
  sha256).hexdigest()[:20]\<close>.
\<close>

definition dsig :: "string \<Rightarrow> string \<Rightarrow> string \<Rightarrow> string \<Rightarrow> string \<Rightarrow> string" where
  "dsig key uname password now req_token =
     take 20 (hex (hmac_sha256 (bytes_of_str key)
       (bytes_of_str (uname @ ''|'' @ password @ ''|'' @ now @ ''|'' @ req_token))))"

text \<open>The form data of the login request, in the order of the source.\<close>

definition login_data ::
  "string \<Rightarrow> string \<Rightarrow> string \<Rightarrow> string \<Rightarrow> string \<Rightarrow> json \<Rightarrow> json \<Rightarrow> (string \<times> json) list" where
  "login_data uname password now req_token key dtoken1i attestation =
     [(''username'', JStr uname),
      (''password'', JStr password),
      (''height'', JNum 1280),
      (''width'', JNum 720),
      (''max_video_height'', JNum 640),
      (''max_video_width'', JNum 480),
      (''dsig'', JStr (dsig key uname password now req_token)),
      (''dtoken1i'', dtoken1i),
      (''ptoken'', JStr ''ie''),
      (''attestation'', attestation),
      (''sflag'', JNum 1),
      (''application_id'', JStr ''com.snapchat.android''),
      (''req_token'', JStr req_token)]"

definition login_request ::
  "snapchat \<Rightarrow> string \<Rightarrow> string \<Rightarrow> string \<Rightarrow> string \<Rightarrow> string \<Rightarrow> json \<Rightarrow> json \<Rightarrow>
   string option \<Rightarrow> json \<Rightarrow> request_call" where
  "login_request self uname password now req_token key dtoken1i attestation g signature =
     mk_request self ''/loq/login''
       (Some (login_data uname password now req_token key dtoken1i attestation))
       (Some [(''now'', JStr now), (''gauth'', opt_str g)])
       None True ''post'' [(''X-Snapchat-Client-Auth'', signature)]"

text \<open>
  \<open>login\<close> up to \<open>result = r.json()\<close>: the secondary token, the device token, the
  clearing of \<open>username\<close> and \<open>auth_token\<close>, the attestation, the arguments of the login
  request in the order Python evaluates them, the request and its JSON value.
\<close>

definition login_submit :: "env \<Rightarrow> string \<Rightarrow> string \<Rightarrow> string \<Rightarrow> string \<Rightarrow> json action" where
  "login_submit env uname password mail mailpw =
     bind (assign (\<lambda>self. self\<lparr>gmail := Some mail, gpasswd := Some mailpw\<rparr>)) (\<lambda>_.
     (let now = e_timestamp env;
          req_token = e_make_request_token env (e_STATIC_TOKEN env) now
      in
     bind (get_auth_token env (Some mail) (Some mailpw)) (\<lambda>gauth_token.
     bind (assign (\<lambda>self. self\<lparr>gauth := Some (fst gauth_token), expiry := snd gauth_token\<rparr>)) (\<lambda>_.
     bind (get_device_token env) (\<lambda>dtoken.
     bind (assign unset_auth) (\<lambda>_.
     bind (lift (ext (e_get_attestation env uname password now))) (\<lambda>attestation.
     bind (lift (py_getitem dtoken ''dtoken1v'')) (\<lambda>dtoken1v.
     bind (lift (py_str env dtoken1v)) (\<lambda>key.
     bind (lift (py_getitem dtoken ''dtoken1i'')) (\<lambda>dtoken1i.
     bind (get_gauth env) (\<lambda>g.
     bind (lift (ext (e_get_client_auth_token env uname password now))) (\<lambda>client_auth.
     bind (lift (py_getitem client_auth ''signature'')) (\<lambda>signature.
     bind get_self (\<lambda>self.
     bind (request env (login_request self uname password now req_token key dtoken1i
                          attestation g signature)) (\<lambda>r.
     lift (response_json r))))))))))))))))"

text \<open>
  \<open>login\<close> from there on: \<open>auth_token\<close> and \<open>username\<close> are set from the items of
  \<open>result['updates_response']\<close>, the exception is raised when both are still \<open>None\<close>, and
  \<open>result\<close> is returned otherwise.  The source writes \<open>result['updates_response']\<close>
  three times, with the same value each time.
\<close>

definition login_finish :: "string \<Rightarrow> json \<Rightarrow> json action" where
  "login_finish uname result =
     bind (lift (py_in ''updates_response'' result)) (\<lambda>has_updates.
     bind (if has_updates then
             bind (lift (py_getitem result ''updates_response'')) (\<lambda>updates.
             bind (lift (py_in ''auth_token'' updates)) (\<lambda>has_token.
             bind (if has_token then
                     bind (lift (py_getitem updates ''auth_token'')) (\<lambda>tok.
                       assign (\<lambda>self. self\<lparr>auth_token := tok\<rparr>))
                   else lift (Inr ())) (\<lambda>_.
             bind (lift (py_in ''username'' updates)) (\<lambda>has_username.
               if has_username then assign (\<lambda>self. self\<lparr>username := Some uname\<rparr>)
               else lift (Inr ())))))
           else lift (Inr ())) (\<lambda>_.
     bind get_self (\<lambda>self.
       if username self = None \<and> auth_token self = JNull then
         bind (lift (py_get result ''message'' (JStr ''unknown error''))) (\<lambda>message.
           lift (Inl (Exception message)))
       else lift (Inr result))))"

definition login :: "env \<Rightarrow> string \<Rightarrow> string \<Rightarrow> string \<Rightarrow> string \<Rightarrow> json action" where
  "login env uname password mail mailpw =
     bind (login_submit env uname password mail mailpw) (login_finish uname)"

section \<open>The requests of the operations\<close>

text \<open>
  Every method of the class that talks to the server does so through \<open>_request\<close>.
  An operation is named with the arguments that go into its request; \<open>now\<close> is the
  value of \<open>str(timestamp())\<close> and \<open>g\<close> the value of \<open>self._get_gauth()\<close> where the
  method computes them.  \<open>login\<close> takes the values it computed before its request,
  \<open>send_events\<close> the texts of \<open>json.dumps(events)\<close> and \<open>json.dumps(data)\<close>, \<open>upload\<close>
  the media id of \<open>make_media_id\<close>, the media type it found and the data of the file.
  The methods that are not listed (\<open>get_snaps\<close>, \<open>get_friends\<close>, \<open>mark_viewed\<close>, ...)
  issue their requests through \<open>get_updates\<close> or \<open>send_events\<close>.
\<close>

datatype operation =
    Get_device_token
  | Login string string string string json json json
  | Logout
  | Get_updates
  | Get_story_blob json
  | Get_blob json
  | Send_events string string
  | Update_privacy bool
  | Add_friend json
  | Delete_friend json
  | Block json
  | Unblock json
  | Upload json int bytes
  | Send json "string list" json
  | Send_to_story json json json json
  | Clear_feed

definition PRIVACY_EVERYONE :: int where
  "PRIVACY_EVERYONE = 0"

definition PRIVACY_FRIENDS :: int where
  "PRIVACY_FRIENDS = 1"

text \<open>\<open>sep.join(xs)\<close> and the text \<open>'["' + '","'.join(recipients) + '"]'\<close> of \<open>send\<close>.\<close>

fun join :: "string \<Rightarrow> string list \<Rightarrow> string" where
  "join sep [] = []"
| "join sep [x] = x"
| "join sep (x # y # ys) = x @ sep @ join sep (y # ys)"

definition recipients_text :: "string list \<Rightarrow> string" where
  "recipients_text recipients =
     [CHR ''['', CHR 0x22] @ join [CHR 0x22, CHR '','', CHR 0x22] recipients @ [CHR 0x22, CHR '']'']"

definition now_gauth :: "string \<Rightarrow> string option \<Rightarrow> (string \<times> json) list" where
  "now_gauth now g = [(''now'', JStr now), (''gauth'', opt_str g)]"

fun request_of :: "snapchat \<Rightarrow> string \<Rightarrow> string option \<Rightarrow> operation \<Rightarrow> request_call" where
  "request_of self now g Get_device_token =
     mk_request self ''/loq/device_id'' None (Some [(''gauth'', opt_str g)]) None True ''post'' []"
| "request_of self now g (Login uname password req_token key dtoken1i attestation signature) =
     login_request self uname password now req_token key dtoken1i attestation g signature"
| "request_of self now g Logout =
     mk_request self ''logout'' (Some [(''username'', opt_str (username self))])
       None None True ''post'' []"
| "request_of self now g Get_updates =
     mk_request self ''/loq/all_updates''
       (Some [(''timestamp'', JStr now), (''username'', opt_str (username self)),
              (''height'', JNum 1280), (''width'', JNum 720),
              (''max_video_height'', JNum 640), (''max_video_width'', JNum 480)])
       (Some (now_gauth now g)) None True ''post'' []"
| "request_of self now g (Get_story_blob story_id) =
     mk_request self ''/bq/story_blob'' (Some [(''story_id'', story_id)])
       None None False ''get'' []"
| "request_of self now g (Get_blob snap_id) =
     mk_request self ''/bq/blob''
       (Some [(''id'', snap_id), (''timestamp'', JStr now), (''username'', opt_str (username self))])
       (Some (now_gauth now g)) None True ''get'' []"
| "request_of self now g (Send_events events_text data_text) =
     mk_request self ''/bq/update_snaps''
       (Some [(''events'', JStr events_text), (''json'', JStr data_text),
              (''username'', opt_str (username self))])
       (Some (now_gauth now g)) None True ''post'' []"
| "request_of self now g (Update_privacy friends_only) =
     mk_request self ''settings''
       (Some [(''username'', opt_str (username self)), (''action'', JStr ''updatePrivacy''),
              (''privacySetting'',
                 JNum (if friends_only then PRIVACY_FRIENDS else PRIVACY_EVERYONE))])
       None None True ''post'' []"
| "request_of self now g (Add_friend friend) =
     mk_request self ''/bq/friend''
       (Some [(''action'', JStr ''add''), (''friend'', friend), (''timestamp'', JStr now),
              (''username'', opt_str (username self)), (''added_by'', JStr ''ADDED_BY_USERNAME'')])
       (Some (now_gauth now g)) None True ''post'' []"
| "request_of self now g (Delete_friend friend) =
     mk_request self ''friend''
       (Some [(''action'', JStr ''delete''), (''friend'', friend),
              (''username'', opt_str (username self))])
       None None True ''post'' []"
| "request_of self now g (Block friend) =
     mk_request self ''friend''
       (Some [(''action'', JStr ''block''), (''friend'', friend),
              (''username'', opt_str (username self))])
       None None True ''post'' []"
| "request_of self now g (Unblock friend) =
     mk_request self ''friend''
       (Some [(''action'', JStr ''unblock''), (''friend'', friend),
              (''username'', opt_str (username self))])
       None None True ''post'' []"
| "request_of self now g (Upload media_id media_type file_data) =
     mk_request self ''/ph/upload''
       (Some [(''media_id'', media_id), (''type'', JNum media_type), (''timestamp'', JStr now),
              (''username'', opt_str (username self)), (''zipped'', JStr ''0'')])
       (Some (now_gauth now g)) (Some [(''data'', file_data)]) True ''post'' []"
| "request_of self now g (Send media_id recipients time) =
     mk_request self ''/loq/send''
       (Some [(''media_id'', media_id), (''zipped'', JStr ''0''),
              (''recipients'', JStr (recipients_text recipients)),
              (''username'', opt_str (username self)), (''time'', time),
              (''timestamp'', JStr now), (''features_map'', JStr ''{}'')])
       (Some (now_gauth now g)) None True ''post'' []"
| "request_of self now g (Send_to_story media_id time media_type zipped) =
     mk_request self ''/bq/post_story''
       (Some [(''username'', opt_str (username self)), (''media_id'', media_id),
              (''client_id'', media_id), (''time'', time), (''type'', media_type),
              (''zipped'', zipped)])
       (Some (now_gauth now g)) None True ''post'' []"
| "request_of self now g Clear_feed =
     mk_request self ''clear'' (Some [(''username'', opt_str (username self))])
       None None True ''post'' []"

section \<open>Predicates on methods\<close>

text \<open>
  A method keeps the credentials when it leaves \<open>username\<close> and \<open>auth_token\<close> as they
  are; it clears them when both are \<open>None\<close> whenever it returns; it raises no
  \<open>Exception\<close> of the client's own when each of its exceptions is of another kind.
\<close>

definition keeps_auth :: "'a action \<Rightarrow> bool" where
  "keeps_auth m =
     (\<forall>s r s'. m s = (r, s') \<longrightarrow> username s' = username s \<and> auth_token s' = auth_token s)"

definition clears_auth :: "'a action \<Rightarrow> bool" where
  "clears_auth m =
     (\<forall>s x s'. m s = (Inr x, s') \<longrightarrow> username s' = None \<and> auth_token s' = JNull)"

definition no_exception :: "'a action \<Rightarrow> bool" where
  "no_exception m = (\<forall>s msg s'. m s \<noteq> (Inl (Exception msg), s'))"

text \<open>
  A concrete environment for running the model: the clock starts at 1000 and advances by
  one at each reading, the identity provider answers every call with the same token,
  valid until 4600, the server answers the device-token request with a fixed pair and
  every other request with the given JSON value.
\<close>

definition sample_env :: "json \<Rightarrow> env" where
  "sample_env result =
     \<lparr>e_clock = (\<lambda>n. 1000 + int n),
      e_get_auth_token = (\<lambda>n g p. Inr (''ya29.fresh'', 4600)),
      e_request = (\<lambda>n rc. Inr \<lparr>r_content = [], r_json = Some
         (if rq_endpoint rc = ''/loq/device_id''
          then JObj [(''dtoken1i'', JStr ''00001:id''), (''dtoken1v'', JStr ''devicekey'')]
          else result)\<rparr>),
      e_timestamp = ''1446595200000'',
      e_STATIC_TOKEN = ''m198sOkJEn37DjqZ32lpRu76xmw288xSQ9'',
      e_make_request_token = (\<lambda>a b. a @ b),
      e_get_attestation = (\<lambda>u p t. Inr (JStr ''attestation'')),
      e_get_client_auth_token = (\<lambda>u p t. Inr (JObj [(''signature'', JStr ''sig'')])),
      e_str = (\<lambda>v. ''None'')\<rparr>"

section \<open>Properties of the classification\<close>

text \<open>The first two bytes of a string decide each test.\<close>

lemma take2_eq_iff: "take 2 data = [a, b] \<longleftrightarrow> (\<exists>rest. data = a # b # rest)"
proof (cases data)
  case Nil
  then show ?thesis by simp
next
  case (Cons x xs)
  then show ?thesis by (cases xs) auto
qed

lemma get_media_type_video: "get_media_type (0x00 # 0x00 # rest) = Some MEDIA_VIDEO"
  by (simp add: get_media_type_def is_video_def)

lemma get_media_type_image: "get_media_type (0xFF # 0xD8 # rest) = Some MEDIA_IMAGE"
  by (simp add: get_media_type_def is_video_def is_image_def)

lemma get_media_type_zip: "get_media_type (0x50 # 0x4B # rest) = Some MEDIA_VIDEO"
  by (simp add: get_media_type_def is_video_def is_image_def is_zip_def)

lemma get_media_type_other:
  assumes "\<And>rest. data \<noteq> 0xFF # 0xD8 # rest"
    and "\<And>rest. data \<noteq> 0x00 # 0x00 # rest"
    and "\<And>rest. data \<noteq> 0x50 # 0x4B # rest"
  shows "get_media_type data = None"
proof -
  from assms have "take 2 data \<noteq> [0xFF, 0xD8]" "take 2 data \<noteq> [0x00, 0x00]"
    "take 2 data \<noteq> [0x50, 0x4B]"
    by (simp_all add: take2_eq_iff)
  then show ?thesis
    by (simp add: get_media_type_def is_video_def is_image_def is_zip_def)
qed

text \<open>
  C2: a byte string starting with FF D8 is classified as an image, one starting with
  00 00 or with 50 4B ("PK") as a video, and every other byte string, the empty one and
  every one-byte string included, gets \<open>None\<close> (unknown).  The classifier is a total
  function of the byte string: no input makes it fail.
\<close>

theorem get_media_type_classifies:
  "get_media_type (0xFF # 0xD8 # rest) = Some MEDIA_IMAGE \<and>
   get_media_type (0x00 # 0x00 # rest) = Some MEDIA_VIDEO \<and>
   get_media_type (0x50 # 0x4B # rest) = Some MEDIA_VIDEO \<and>
   ((\<forall>r. data \<noteq> 0xFF # 0xD8 # r) \<and> (\<forall>r. data \<noteq> 0x00 # 0x00 # r) \<and>
    (\<forall>r. data \<noteq> 0x50 # 0x4B # r) \<longrightarrow> get_media_type data = None) \<and>
   get_media_type [] = None \<and>
   get_media_type [b] = None"
proof -
  have short: "get_media_type [] = None" "get_media_type [b] = None"
    by (rule get_media_type_other; simp)+
  with get_media_type_image get_media_type_video get_media_type_zip get_media_type_other [of data]
  show ?thesis
    by blast
qed

theorem get_media_type_classifies_witness:
  "get_media_type [0xFF, 0xD8, 0xFF, 0xE0] = Some MEDIA_IMAGE \<and>
   get_media_type [0x00, 0x00, 0x00, 0x18] = Some MEDIA_VIDEO \<and>
   get_media_type [0x50, 0x4B, 0x03, 0x04] = Some MEDIA_VIDEO \<and>
   get_media_type [0x89, 0x50, 0x4E, 0x47] = None \<and>
   get_media_type [] = None \<and>
   get_media_type [0xFF] = None"
proof -
  have other: "(\<forall>r. [0x89, 0x50, 0x4E, 0x47 :: byte] \<noteq> 0xFF # 0xD8 # r) \<and>
      (\<forall>r. [0x89, 0x50, 0x4E, 0x47 :: byte] \<noteq> 0x00 # 0x00 # r) \<and>
      (\<forall>r. [0x89, 0x50, 0x4E, 0x47 :: byte] \<noteq> 0x50 # 0x4B # r)"
    by simp
  from get_media_type_classifies [of "[0xFF, 0xE0]" "[0x89, 0x50, 0x4E, 0x47]" "0xFF"]
  have "get_media_type [0xFF, 0xD8, 0xFF, 0xE0] = Some MEDIA_IMAGE"
    and "get_media_type [0x89, 0x50, 0x4E, 0x47] = None"
    and "get_media_type [] = None" and "get_media_type [0xFF] = None"
    using other by blast+
  moreover from get_media_type_classifies [of "[0x00, 0x18]"]
  have "get_media_type [0x00, 0x00, 0x00, 0x18] = Some MEDIA_VIDEO"
    by blast
  moreover from get_media_type_classifies [of "[0x03, 0x04]"]
  have "get_media_type [0x50, 0x4B, 0x03, 0x04] = Some MEDIA_VIDEO"
    by blast
  ultimately show ?thesis
    by blast
qed

text \<open>
  C8: \<open>get_file_extension\<close> gives "mp4" for the video kinds, "jpg" for the image kind
  and the empty string for everything else, \<open>None\<close> included; so a blob that starts
  with FF D8 is classified as an image and its kind has the extension "jpg".
\<close>

theorem get_file_extension_table:
  "get_file_extension (Some MEDIA_VIDEO) = ''mp4'' \<and>
   get_file_extension (Some MEDIA_VIDEO_NOAUDIO) = ''mp4'' \<and>
   get_file_extension (Some MEDIA_IMAGE) = ''jpg'' \<and>
   get_file_extension None = [] \<and>
   (\<forall>k. k \<noteq> Some MEDIA_VIDEO \<and> k \<noteq> Some MEDIA_VIDEO_NOAUDIO \<and> k \<noteq> Some MEDIA_IMAGE
      \<longrightarrow> get_file_extension k = []) \<and>
   (\<forall>rest. get_media_type (0xFF # 0xD8 # rest) = Some MEDIA_IMAGE \<and>
      get_file_extension (get_media_type (0xFF # 0xD8 # rest)) = ''jpg'')"
  by (simp add: get_file_extension_def get_media_type_def is_video_def is_image_def
      MEDIA_IMAGE_def MEDIA_VIDEO_def MEDIA_VIDEO_NOAUDIO_def)

theorem get_file_extension_table_witness:
  "get_file_extension (Some 7) = [] \<and>
   get_file_extension (get_media_type [0xFF, 0xD8, 0xFF, 0xE0]) = ''jpg''"
proof -
  have other: "Some (7::int) \<noteq> Some MEDIA_VIDEO \<and> Some (7::int) \<noteq> Some MEDIA_VIDEO_NOAUDIO \<and>
      Some (7::int) \<noteq> Some MEDIA_IMAGE"
    by (simp add: MEDIA_IMAGE_def MEDIA_VIDEO_def MEDIA_VIDEO_NOAUDIO_def)
  from get_file_extension_table other show ?thesis
    by blast
qed

text \<open>
  C10: the classifier has no zip kind of its own.  A byte string starting with 50 4B
  gets exactly \<open>MEDIA_VIDEO\<close>, the value a string starting with 00 00 gets, and so the
  extension "mp4"; image, video and \<open>None\<close> are all the classifier ever returns.
\<close>

theorem zip_is_video:
  "get_media_type (0x50 # 0x4B # rest) = Some MEDIA_VIDEO \<and>
   get_media_type (0x50 # 0x4B # rest) = get_media_type (0x00 # 0x00 # rest') \<and>
   get_file_extension (get_media_type (0x50 # 0x4B # rest)) = ''mp4'' \<and>
   get_media_type data \<in> {Some MEDIA_IMAGE, Some MEDIA_VIDEO, None}"
proof -
  have "get_media_type data \<in> {Some MEDIA_IMAGE, Some MEDIA_VIDEO, None}"
    by (simp add: get_media_type_def)
  then show ?thesis
    by (simp add: get_media_type_zip get_media_type_video get_file_extension_def)
qed

section \<open>Properties of the secondary token\<close>

text \<open>
  C6: the secondary token is refreshed lazily.  When the clock reading is strictly
  before the stored expiry, \<open>_get_gauth\<close> returns the cached token, calls the identity
  provider not at all and leaves token and expiry as they are.  When the reading is at or
  past the expiry, it calls the provider exactly once; the token and expiry of the answer
  replace the cached ones and the new token is returned (an exception of the provider
  propagates and leaves the cache as it is).  So the cached token is returned without a
  refresh only strictly before its expiry.
\<close>

theorem get_gauth_lazy_refresh:
  "(e_clock env (clock_reads self) < expiry self \<longrightarrow>
      fst (get_gauth env self) = Inr (gauth self) \<and>
      idp_calls (snd (get_gauth env self)) = idp_calls self \<and>
      gauth (snd (get_gauth env self)) = gauth self \<and>
      expiry (snd (get_gauth env self)) = expiry self) \<and>
   (expiry self \<le> e_clock env (clock_reads self) \<longrightarrow>
      idp_calls (snd (get_gauth env self)) = idp_calls self + 1 \<and>
      (\<forall>tok exp. e_get_auth_token env (idp_calls self) (gmail self) (gpasswd self) = Inr (tok, exp)
         \<longrightarrow> fst (get_gauth env self) = Inr (Some tok) \<and>
             gauth (snd (get_gauth env self)) = Some tok \<and>
             expiry (snd (get_gauth env self)) = exp) \<and>
      (\<forall>msg. e_get_auth_token env (idp_calls self) (gmail self) (gpasswd self) = Inl msg
         \<longrightarrow> fst (get_gauth env self) = Inl (External msg) \<and>
             gauth (snd (get_gauth env self)) = gauth self \<and>
             expiry (snd (get_gauth env self)) = expiry self)) \<and>
   (idp_calls (snd (get_gauth env self)) = idp_calls self \<longrightarrow>
      e_clock env (clock_reads self) < expiry self)"
  by (auto simp add: get_gauth_def bind_def datetime_now_def get_auth_token_def assign_def ext_def
      get_self_def lift_def split: sum.splits)

theorem get_gauth_lazy_refresh_witness:
  "fst (get_gauth (sample_env JNull) (init\<lparr>gauth := Some ''ya29.cached'', expiry := 1001\<rparr>))
     = Inr (Some ''ya29.cached'') \<and>
   idp_calls (snd (get_gauth (sample_env JNull) (init\<lparr>gauth := Some ''ya29.cached'', expiry := 1001\<rparr>)))
     = 0 \<and>
   fst (get_gauth (sample_env JNull) (init\<lparr>gauth := Some ''ya29.cached'', expiry := 1000\<rparr>))
     = Inr (Some ''ya29.fresh'') \<and>
   idp_calls (snd (get_gauth (sample_env JNull) (init\<lparr>gauth := Some ''ya29.cached'', expiry := 1000\<rparr>)))
     = 1 \<and>
   expiry (snd (get_gauth (sample_env JNull) (init\<lparr>gauth := Some ''ya29.cached'', expiry := 1000\<rparr>)))
     = 4600"
proof -
  let ?valid = "init\<lparr>gauth := Some ''ya29.cached'', expiry := 1001\<rparr>"
  let ?stale = "init\<lparr>gauth := Some ''ya29.cached'', expiry := 1000\<rparr>"
  have before: "e_clock (sample_env JNull) (clock_reads ?valid) < expiry ?valid"
    by (simp add: sample_env_def init_def)
  have at: "expiry ?stale \<le> e_clock (sample_env JNull) (clock_reads ?stale)"
    by (simp add: sample_env_def init_def)
  have answer: "e_get_auth_token (sample_env JNull) (idp_calls ?stale) (gmail ?stale) (gpasswd ?stale)
      = Inr (''ya29.fresh'', 4600)"
    by (simp add: sample_env_def)
  have cached: "fst (get_gauth (sample_env JNull) ?valid) = Inr (gauth ?valid) \<and>
      idp_calls (snd (get_gauth (sample_env JNull) ?valid)) = idp_calls ?valid"
    using get_gauth_lazy_refresh [of "sample_env JNull" ?valid] before by blast
  have fresh: "fst (get_gauth (sample_env JNull) ?stale) = Inr (Some ''ya29.fresh'') \<and>
      idp_calls (snd (get_gauth (sample_env JNull) ?stale)) = idp_calls ?stale + 1 \<and>
      expiry (snd (get_gauth (sample_env JNull) ?stale)) = 4600"
    using get_gauth_lazy_refresh [of "sample_env JNull" ?stale] at answer by blast
  from cached fresh show ?thesis
    by (simp add: init_def)
qed

section \<open>Properties of the signature\<close>






text \<open>The model of SHA-256 on the test vector "abc" of FIPS 180.\<close>

lemma sha256_abc:
  "hex (sha256 (bytes_of_str ''abc'')) =
     ''ba7816bf8f01cfea414140de5dae2223b00361a396177a9cb410ff61f20015ad''"
  by code_simp


section \<open>Properties of login\<close>

subsection \<open>Sequencing\<close>

lemma bind_Inl:
  "bind m f s = (Inl e, s') \<longleftrightarrow>
     m s = (Inl e, s') \<or> (\<exists>x s1. m s = (Inr x, s1) \<and> f x s1 = (Inl e, s'))"
  by (auto simp add: bind_def split: prod.splits sum.splits)

lemma keeps_auth_bind: "keeps_auth m \<Longrightarrow> (\<And>x. keeps_auth (f x)) \<Longrightarrow> keeps_auth (bind m f)"
  unfolding keeps_auth_def bind_def
  by (auto split: prod.splits sum.splits)

lemma keeps_auth_lift: "keeps_auth (lift r)"
  by (simp add: keeps_auth_def lift_def)

lemma keeps_auth_get_self: "keeps_auth get_self"
  by (simp add: keeps_auth_def get_self_def)

lemma keeps_auth_if: "keeps_auth a \<Longrightarrow> keeps_auth b \<Longrightarrow> keeps_auth (if c then a else b)"
  by simp

lemma keeps_auth_assign:
  "(\<And>s. username (f s) = username s \<and> auth_token (f s) = auth_token s) \<Longrightarrow>
   keeps_auth (assign f)"
  by (auto simp add: keeps_auth_def assign_def)

lemma keeps_auth_datetime_now: "keeps_auth (datetime_now env)"
  by (auto simp add: keeps_auth_def datetime_now_def)

lemma keeps_auth_get_auth_token: "keeps_auth (get_auth_token env g p)"
  by (auto simp add: keeps_auth_def get_auth_token_def)

lemma keeps_auth_request: "keeps_auth (request env rc)"
  by (auto simp add: keeps_auth_def request_def)

lemma keeps_auth_get_gauth: "keeps_auth (get_gauth env)"
  unfolding get_gauth_def
  by (intro keeps_auth_bind keeps_auth_datetime_now keeps_auth_get_self keeps_auth_if
      keeps_auth_get_auth_token keeps_auth_assign keeps_auth_lift) simp

lemma no_exception_bind:
  "no_exception m \<Longrightarrow> (\<And>x. no_exception (f x)) \<Longrightarrow> no_exception (bind m f)"
  unfolding no_exception_def bind_def
  by (auto split: prod.splits sum.splits)

lemma no_exception_get_self: "no_exception get_self"
  by (simp add: no_exception_def get_self_def)

lemma no_exception_if: "no_exception a \<Longrightarrow> no_exception b \<Longrightarrow> no_exception (if c then a else b)"
  by simp

lemma no_exception_assign: "no_exception (assign f)"
  by (simp add: no_exception_def assign_def)

lemma no_exception_lift: "(\<And>msg. r \<noteq> Inl (Exception msg)) \<Longrightarrow> no_exception (lift r)"
  by (simp add: no_exception_def lift_def)

lemma ext_no_exception: "ext r \<noteq> Inl (Exception msg)"
  by (simp add: ext_def split: sum.splits)

lemma py_getitem_no_exception: "py_getitem v k \<noteq> Inl (Exception msg)"
  by (cases v) (simp_all split: option.splits)

lemma py_in_no_exception: "py_in k v \<noteq> Inl (Exception msg)"
  by (cases v) simp_all

lemma py_get_no_exception: "py_get v k d \<noteq> Inl (Exception msg)"
  by (cases v) simp_all

lemma py_str_no_exception: "py_str env v \<noteq> Inl (Exception msg)"
  by (simp add: py_str_def split: json.splits)

lemma response_json_no_exception: "response_json r \<noteq> Inl (Exception msg)"
  by (simp add: response_json_def split: option.splits)

lemma no_exception_datetime_now: "no_exception (datetime_now env)"
  by (simp add: no_exception_def datetime_now_def)

lemma no_exception_get_auth_token: "no_exception (get_auth_token env g p)"
  by (simp add: no_exception_def get_auth_token_def ext_no_exception)

lemma no_exception_request: "no_exception (request env rc)"
  by (simp add: no_exception_def request_def ext_no_exception)

lemma no_exception_get_gauth: "no_exception (get_gauth env)"
  unfolding get_gauth_def
  by (intro no_exception_bind no_exception_datetime_now no_exception_get_self no_exception_if
      no_exception_get_auth_token no_exception_assign no_exception_lift) simp_all

lemma no_exception_get_device_token: "no_exception (get_device_token env)"
  unfolding get_device_token_def
  by (intro no_exception_bind no_exception_get_gauth no_exception_get_self no_exception_request
      no_exception_lift response_json_no_exception)

text \<open>Up to the JSON value of the response, \<open>login\<close> raises no \<open>Exception\<close> of its own.\<close>

lemma no_exception_login_submit: "no_exception (login_submit env uname password mail mailpw)"
  unfolding login_submit_def Let_def
  by (intro no_exception_bind no_exception_assign no_exception_get_auth_token
      no_exception_get_device_token no_exception_get_gauth no_exception_get_self
      no_exception_request no_exception_lift ext_no_exception py_getitem_no_exception
      py_str_no_exception response_json_no_exception)

lemma clears_auth_bind_left:
  "clears_auth m \<Longrightarrow> (\<And>x. keeps_auth (f x)) \<Longrightarrow> clears_auth (bind m f)"
  unfolding clears_auth_def keeps_auth_def bind_def
  by (auto split: prod.splits sum.splits)

lemma clears_auth_bind_right: "(\<And>x. clears_auth (f x)) \<Longrightarrow> clears_auth (bind m f)"
  unfolding clears_auth_def bind_def
  by (auto split: prod.splits sum.splits)

lemma clears_auth_unset: "clears_auth (assign unset_auth)"
  by (simp add: clears_auth_def assign_def unset_auth_def)

text \<open>
  \<open>_unset_auth\<close> runs after the device token has arrived, and nothing between it and
  the response of the login request assigns \<open>username\<close> or \<open>auth_token\<close>.
\<close>

lemma clears_auth_login_submit: "clears_auth (login_submit env uname password mail mailpw)"
  unfolding login_submit_def Let_def
  apply (rule clears_auth_bind_right)
  apply (rule clears_auth_bind_right)
  apply (rule clears_auth_bind_right)
  apply (rule clears_auth_bind_right)
  apply (rule clears_auth_bind_left)
   apply (rule clears_auth_unset)
  apply (intro keeps_auth_bind keeps_auth_lift keeps_auth_get_gauth keeps_auth_get_self
      keeps_auth_request)
  done

lemma login_after_submit:
  "login_submit env uname password mail mailpw s = (Inr result, s1) \<Longrightarrow>
   login env uname password mail mailpw s = login_finish uname result s1 \<and>
   username s1 = None \<and> auth_token s1 = JNull"
  using clears_auth_login_submit [of env uname password mail mailpw]
  by (simp add: login_def bind_def clears_auth_def)

subsection \<open>The response\<close>

lemma login_finish_no_updates:
  "map_of kvs ''updates_response'' = None \<Longrightarrow>
   login_finish uname (JObj kvs) s =
     (if username s = None \<and> auth_token s = JNull
      then (Inl (Exception
              (case map_of kvs ''message'' of None \<Rightarrow> JStr ''unknown error'' | Some m \<Rightarrow> m)), s)
      else (Inr (JObj kvs), s))"
  by (simp add: login_finish_def bind_def lift_def get_self_def)

lemma login_finish_updates:
  "map_of kvs ''updates_response'' = Some (JObj ur) \<Longrightarrow>
   login_finish uname (JObj kvs) s =
     (let s1 = (case map_of ur ''auth_token'' of None \<Rightarrow> s | Some t \<Rightarrow> s\<lparr>auth_token := t\<rparr>);
          s2 = (if map_of ur ''username'' = None then s1 else s1\<lparr>username := Some uname\<rparr>)
      in if username s2 = None \<and> auth_token s2 = JNull
         then (Inl (Exception
                 (case map_of kvs ''message'' of None \<Rightarrow> JStr ''unknown error'' | Some m \<Rightarrow> m)), s2)
         else (Inr (JObj kvs), s2))"
  by (auto simp add: login_finish_def bind_def lift_def get_self_def assign_def Let_def
      split: option.splits)

lemma login_finish_exception:
  "login_finish uname result s = (Inl (Exception msg), s') \<Longrightarrow>
   username s' = None \<and> auth_token s' = JNull"
  by (auto simp add: login_finish_def bind_def lift_def get_self_def assign_def
      py_in_no_exception py_getitem_no_exception py_get_no_exception
      split: prod.splits sum.splits if_splits)

subsection \<open>Runs in the concrete environment\<close>

lemma sample_env_submit: "fst (login_submit (sample_env R) u p m mp s) = Inr R"
  by (simp add: login_submit_def bind_def lift_def assign_def get_self_def get_auth_token_def
      get_device_token_def get_gauth_def datetime_now_def request_def mk_request_def
      login_request_def response_json_def ext_def sample_env_def py_str_def unset_auth_def Let_def)

lemma sample_env_submitted:
  "login_submit (sample_env R) u p m mp s = (Inr R, snd (login_submit (sample_env R) u p m mp s))"
  using sample_env_submit [of R u p m mp s]
  by (cases "login_submit (sample_env R) u p m mp s") simp


subsection \<open>When login raises\<close>

text \<open>
  C3, as the code has it.  Let the login request be answered by a JSON object whose
  \<open>updates_response\<close>, when there is one, is an object.  Then \<open>login\<close> raises its
  \<open>Exception\<close> if and only if \<open>updates_response\<close> is absent or has neither a
  \<open>username\<close> item nor an \<open>auth_token\<close> other than null, and returns the response
  otherwise.  The exception carries the \<open>message\<close> item of the response, and the text
  "unknown error" when the response has none.
\<close>

theorem login_raises_iff:
  assumes "login_submit env uname password mail mailpw s = (Inr (JObj kvs), s1)"
  shows "(map_of kvs ''updates_response'' = None \<longrightarrow>
            fst (login env uname password mail mailpw s) =
              Inl (Exception
                (case map_of kvs ''message'' of None \<Rightarrow> JStr ''unknown error'' | Some m \<Rightarrow> m))) \<and>
         (\<forall>ur. map_of kvs ''updates_response'' = Some (JObj ur) \<longrightarrow>
            fst (login env uname password mail mailpw s) =
              (if map_of ur ''username'' = None \<and>
                  (map_of ur ''auth_token'' = None \<or> map_of ur ''auth_token'' = Some JNull)
               then Inl (Exception
                 (case map_of kvs ''message'' of None \<Rightarrow> JStr ''unknown error'' | Some m \<Rightarrow> m))
               else Inr (JObj kvs)))"
proof -
  from login_after_submit [OF assms] have
    run: "login env uname password mail mailpw s = login_finish uname (JObj kvs) s1"
    and unset: "username s1 = None" "auth_token s1 = JNull"
    by simp_all
  show ?thesis
    using unset
    by (auto simp add: run login_finish_no_updates login_finish_updates Let_def
        split: option.splits)
qed

theorem login_raises_iff_witness:
  "fst (login (sample_env (JObj [(''message'', JStr ''Invalid username or password'')]))
         ''bob'' ''hunter2'' ''bob@gmail.com'' ''gpw'' init)
     = Inl (Exception (JStr ''Invalid username or password'')) \<and>
   fst (login (sample_env (JObj [(''updates_response'',
           JObj [(''username'', JStr ''bob''), (''auth_token'', JStr ''f3a1'')])]))
         ''bob'' ''hunter2'' ''bob@gmail.com'' ''gpw'' init)
     = Inr (JObj [(''updates_response'',
           JObj [(''username'', JStr ''bob''), (''auth_token'', JStr ''f3a1'')])])"
proof -
  have rejected:
    "fst (login (sample_env (JObj [(''message'', JStr ''Invalid username or password'')]))
       ''bob'' ''hunter2'' ''bob@gmail.com'' ''gpw'' init)
     = Inl (Exception (JStr ''Invalid username or password''))"
    using login_raises_iff [OF sample_env_submitted,
        of "[(''message'', JStr ''Invalid username or password'')]"
           "''bob''" "''hunter2''" "''bob@gmail.com''" "''gpw''" init]
    by simp
  have accepted:
    "fst (login (sample_env (JObj [(''updates_response'',
           JObj [(''username'', JStr ''bob''), (''auth_token'', JStr ''f3a1'')])]))
         ''bob'' ''hunter2'' ''bob@gmail.com'' ''gpw'' init)
     = Inr (JObj [(''updates_response'',
           JObj [(''username'', JStr ''bob''), (''auth_token'', JStr ''f3a1'')])])"
    using login_raises_iff [OF sample_env_submitted,
        of "[(''updates_response'',
              JObj [(''username'', JStr ''bob''), (''auth_token'', JStr ''f3a1'')])]"
           "''bob''" "''hunter2''" "''bob@gmail.com''" "''gpw''" init]
    by simp
  from rejected accepted show ?thesis
    by (rule conjI)
qed

text \<open>
  C3 as the claim states it fails on a response whose \<open>updates_response\<close> holds an
  \<open>auth_token\<close> item that is null: the response contains the item, \<open>login\<close> raises all
  the same, and, the response having no \<open>message\<close>, the exception carries
  "unknown error".
\<close>

theorem login_raises_on_null_token:
  "py_getitem (JObj [(''updates_response'', JObj [(''auth_token'', JNull)])]) ''updates_response''
     = Inr (JObj [(''auth_token'', JNull)]) \<and>
   py_in ''auth_token'' (JObj [(''auth_token'', JNull)]) = Inr True \<and>
   py_in ''message'' (JObj [(''updates_response'', JObj [(''auth_token'', JNull)])]) = Inr False \<and>
   fst (login (sample_env (JObj [(''updates_response'', JObj [(''auth_token'', JNull)])]))
          ''bob'' ''hunter2'' ''bob@gmail.com'' ''gpw'' init)
     = Inl (Exception (JStr ''unknown error''))"
proof -
  have "fst (login (sample_env (JObj [(''updates_response'', JObj [(''auth_token'', JNull)])]))
          ''bob'' ''hunter2'' ''bob@gmail.com'' ''gpw'' init)
     = Inl (Exception (JStr ''unknown error''))"
    using login_after_submit [OF sample_env_submitted,
        of "JObj [(''updates_response'', JObj [(''auth_token'', JNull)])]"
           "''bob''" "''hunter2''" "''bob@gmail.com''" "''gpw''" init]
    by (simp add: login_finish_updates)
  then show ?thesis
    by simp
qed

subsection \<open>The session after login\<close>




subsection \<open>The session after a failed login\<close>

text \<open>
  C9: whenever \<open>login\<close> raises its \<open>Exception\<close>, \<open>username\<close> and \<open>auth_token\<close> are both
  \<open>None\<close> afterwards, whatever they were before the call.
\<close>

theorem login_failure_unsets_credentials:
  assumes "login env uname password mail mailpw s = (Inl (Exception msg), s')"
  shows "username s' = None \<and> auth_token s' = JNull"
proof -
  have "login_submit env uname password mail mailpw s \<noteq> (Inl (Exception msg), s')"
    using no_exception_login_submit [of env uname password mail mailpw]
    by (simp add: no_exception_def)
  with assms obtain result s1 where
    "login_finish uname result s1 = (Inl (Exception msg), s')"
    by (auto simp add: login_def bind_Inl)
  then show ?thesis
    by (rule login_finish_exception)
qed

theorem login_failure_unsets_credentials_witness:
  "fst (login (sample_env (JObj [(''message'', JStr ''Invalid username or password'')]))
         ''bob'' ''hunter2'' ''bob@gmail.com'' ''gpw''
         (init\<lparr>username := Some ''alice'', auth_token := JStr ''0ld7''\<rparr>))
     = Inl (Exception (JStr ''Invalid username or password'')) \<and>
   username (snd (login (sample_env (JObj [(''message'', JStr ''Invalid username or password'')]))
         ''bob'' ''hunter2'' ''bob@gmail.com'' ''gpw''
         (init\<lparr>username := Some ''alice'', auth_token := JStr ''0ld7''\<rparr>))) = None \<and>
   auth_token (snd (login (sample_env (JObj [(''message'', JStr ''Invalid username or password'')]))
         ''bob'' ''hunter2'' ''bob@gmail.com'' ''gpw''
         (init\<lparr>username := Some ''alice'', auth_token := JStr ''0ld7''\<rparr>))) = JNull"
proof -
  let ?run = "login (sample_env (JObj [(''message'', JStr ''Invalid username or password'')]))
         ''bob'' ''hunter2'' ''bob@gmail.com'' ''gpw''
         (init\<lparr>username := Some ''alice'', auth_token := JStr ''0ld7''\<rparr>)"
  have raised: "fst ?run = Inl (Exception (JStr ''Invalid username or password''))"
    using login_after_submit [OF sample_env_submitted,
        of "JObj [(''message'', JStr ''Invalid username or password'')]"
           "''bob''" "''hunter2''" "''bob@gmail.com''" "''gpw''"
           "init\<lparr>username := Some ''alice'', auth_token := JStr ''0ld7''\<rparr>"]
    by (simp add: login_finish_no_updates)
  then have "?run = (Inl (Exception (JStr ''Invalid username or password'')), snd ?run)"
    by (cases ?run) simp
  from login_failure_unsets_credentials [OF this] raised show ?thesis
    by simp
qed

section \<open>Properties of the requests\<close>

text \<open>
  C5, as the code has it.  Every request carries the \<open>auth_token\<close> of the object, set
  or not.  The requests of \<open>login\<close>, \<open>get_updates\<close>, \<open>get_blob\<close>, \<open>send_events\<close>,
  \<open>add_friend\<close>, \<open>upload\<close>, \<open>send\<close> and \<open>send_to_story\<close> carry the parameters \<open>now\<close> and
  \<open>gauth\<close>; the device-token request carries \<open>gauth\<close> alone; the requests of \<open>logout\<close>,
  \<open>update_privacy\<close>, \<open>delete_friend\<close>, \<open>block\<close>, \<open>unblock\<close> and \<open>clear_feed\<close> carry no
  parameters.  Nothing is said here about the parameters of the story-blob request.
\<close>

theorem requests_carry:
  "rq_auth_token (request_of self now g op) = auth_token self \<and>
   rq_params (request_of self now g (Login uname password req_token key dtoken1i attestation signature))
     = Some [(''now'', JStr now), (''gauth'', opt_str g)] \<and>
   rq_params (request_of self now g Get_updates) = Some [(''now'', JStr now), (''gauth'', opt_str g)] \<and>
   rq_params (request_of self now g (Get_blob snap_id))
     = Some [(''now'', JStr now), (''gauth'', opt_str g)] \<and>
   rq_params (request_of self now g (Send_events events_text data_text))
     = Some [(''now'', JStr now), (''gauth'', opt_str g)] \<and>
   rq_params (request_of self now g (Add_friend friend))
     = Some [(''now'', JStr now), (''gauth'', opt_str g)] \<and>
   rq_params (request_of self now g (Upload media_id media_type file_data))
     = Some [(''now'', JStr now), (''gauth'', opt_str g)] \<and>
   rq_params (request_of self now g (Send media_id' recipients time))
     = Some [(''now'', JStr now), (''gauth'', opt_str g)] \<and>
   rq_params (request_of self now g (Send_to_story media_id'' time' media_type' zipped))
     = Some [(''now'', JStr now), (''gauth'', opt_str g)] \<and>
   rq_params (request_of self now g Get_device_token) = Some [(''gauth'', opt_str g)] \<and>
   rq_params (request_of self now g Logout) = None \<and>
   rq_params (request_of self now g (Update_privacy friends_only)) = None \<and>
   rq_params (request_of self now g (Delete_friend friend')) = None \<and>
   rq_params (request_of self now g (Block friend'')) = None \<and>
   rq_params (request_of self now g (Unblock friend''')) = None \<and>
   rq_params (request_of self now g Clear_feed) = None"
proof -
  have "rq_auth_token (request_of self now g op) = auth_token self"
    by (cases op) (simp_all add: mk_request_def login_request_def)
  then show ?thesis
    by (simp add: mk_request_def login_request_def now_gauth_def)
qed

text \<open>
  C5 as the claim states it fails on \<open>logout\<close>: its request has no parameters at all,
  so neither \<open>now\<close> nor \<open>gauth\<close>.
\<close>

theorem logout_request_has_no_params:
  "request_of (init\<lparr>username := Some ''bob'', auth_token := JStr ''f3a1''\<rparr>)
       ''1446595200000'' (Some ''ya29.fresh'') Logout
     = \<lparr>rq_endpoint = ''logout'', rq_auth_token = JStr ''f3a1'',
        rq_data = Some [(''username'', JStr ''bob'')], rq_params = None, rq_files = None,
        rq_raise_for_status = True, rq_req_type = ''post'', rq_moreheaders = []\<rparr>"
  by (simp add: mk_request_def init_def opt_str_def)

end
